theory Spec2Isabelle
  imports Main "HOL-Library.Sublist"
begin

section \<open>The service-worker example's bundler configuration\<close>

text \<open>
  The development embeds \<^verbatim>\<open>examples/service-worker/webpack.config.js\<close>: a module that
  exports a factory function returning the bundler's configuration object.  JavaScript
  values are dynamically typed, so the configuration is modelled as a tree of untyped
  values; which keys are present and what type their values have is then a property to
  prove, not a consequence of a HOL type.
\<close>

subsection \<open>JavaScript values\<close>

text \<open>
  A regular-expression literal is kept as its parsed pattern.  The two literals of the
  file only use plain characters, one optional character (\<^verbatim>\<open>x?\<close>) and the end-of-input
  assertion (\<^verbatim>\<open>$\<close>); neither carries a flag.
\<close>

datatype regex_term =
    Atom char
  | Optional char
  | AssertEnd

type_synonym regex = "regex_term list"

text \<open>
  Object literals keep their properties in source order.  An instance created by
  \<^verbatim>\<open>new C(options)\<close> is recorded by the name of its class and the options it got.
\<close>

datatype jsval =
    JUndefined
  | JString string
  | JRegExp regex
  | JArray "jsval list"
  | JObject "(string \<times> jsval) list"
  | JInstance string jsval

datatype error = TypeError string

subsection \<open>Regular-expression matching\<close>

text \<open>
  \<^verbatim>\<open>match_here\<close> matches a pattern against the input starting at its first character;
  an optional character is tried first with the character and then without it.
  \<^verbatim>\<open>regex_test\<close> is \<^verbatim>\<open>RegExp.prototype.test\<close> without flags: the pattern may start at
  any position of the input, the end of the input included.
\<close>

fun match_here :: "regex \<Rightarrow> string \<Rightarrow> bool" where
  "match_here [] s = True"
| "match_here (Atom c # ts) s =
     (case s of [] \<Rightarrow> False | x # xs \<Rightarrow> x = c \<and> match_here ts xs)"
| "match_here (Optional c # ts) s =
     ((case s of [] \<Rightarrow> False | x # xs \<Rightarrow> x = c \<and> match_here ts xs) \<or> match_here ts s)"
| "match_here (AssertEnd # ts) s = (s = [] \<and> match_here ts s)"

fun regex_test :: "regex \<Rightarrow> string \<Rightarrow> bool" where
  "regex_test r [] = match_here r []"
| "regex_test r (c # cs) = (match_here r (c # cs) \<or> regex_test r cs)"

subsection \<open>The runtime's \<^verbatim>\<open>path.join\<close>\<close>

text \<open>
  Modelled from the spec: the source and the spec only name \<^verbatim>\<open>path.join\<close>, which
  belongs to the Node.js runtime and is not part of the repository.  The model follows
  the runtime's documented POSIX behaviour: every argument must be a string (a
  \<^verbatim>\<open>TypeError\<close> naming the argument \<^verbatim>\<open>path\<close> otherwise), zero-length arguments are
  ignored, the others are joined with \<^verbatim>\<open>/\<close>, and the result is normalised: empty and \<^verbatim>\<open>.\<close> segments are dropped,
  a \<^verbatim>\<open>..\<close> segment removes the segment before it (at the root it is dropped, in a
  relative path it is kept when nothing is left to remove), a trailing separator is
  preserved, and an empty result becomes \<^verbatim>\<open>.\<close> (or \<^verbatim>\<open>/\<close> for an absolute path).
\<close>

fun split_on :: "char \<Rightarrow> string \<Rightarrow> string list" where
  "split_on sep [] = [[]]"
| "split_on sep (c # cs) =
     (if c = sep then [] # split_on sep cs
      else (case split_on sep cs of
              [] \<Rightarrow> [[c]]
            | s # ss \<Rightarrow> (c # s) # ss))"

fun join_with :: "string \<Rightarrow> string list \<Rightarrow> string" where
  "join_with sep [] = []"
| "join_with sep [s] = s"
| "join_with sep (s # t # ss) = s @ sep @ join_with sep (t # ss)"

definition normalize_step :: "bool \<Rightarrow> string list \<Rightarrow> string \<Rightarrow> string list" where
  "normalize_step allowAboveRoot res seg =
     (if seg = [] \<or> seg = ''.'' then res
      else if seg = ''..'' then
        (if res \<noteq> [] \<and> last res \<noteq> ''..'' then butlast res
         else if allowAboveRoot then res @ [''..'']
         else res)
      else res @ [seg])"

definition normalizeString :: "string \<Rightarrow> bool \<Rightarrow> string" where
  "normalizeString path allowAboveRoot =
     join_with ''/'' (foldl (normalize_step allowAboveRoot) [] (split_on CHR ''/'' path))"

definition path_normalize :: "string \<Rightarrow> string" where
  "path_normalize path =
     (if path = [] then ''.''
      else
        (let isAbsolute = (hd path = CHR ''/'');
             trailingSeparator = (last path = CHR ''/'');
             p = normalizeString path (\<not> isAbsolute)
         in if p = [] then
              (if isAbsolute then ''/'' else if trailingSeparator then ''./'' else ''.'')
            else
              (let q = (if trailingSeparator then p @ ''/'' else p)
               in if isAbsolute then ''/'' @ q else q)))"

fun validate_strings :: "jsval list \<Rightarrow> error + string list" where
  "validate_strings [] = Inr []"
| "validate_strings (JString s # vs) =
     (case validate_strings vs of Inl e \<Rightarrow> Inl e | Inr ss \<Rightarrow> Inr (s # ss))"
| "validate_strings (v # vs) = Inl (TypeError ''path'')"

definition path_join :: "jsval list \<Rightarrow> error + string" where
  "path_join args =
     (case validate_strings args of
        Inl e \<Rightarrow> Inl e
      | Inr ss \<Rightarrow>
          (let parts = filter (\<lambda>s. s \<noteq> []) ss
           in if parts = [] then Inr ''.''
              else Inr (path_normalize (join_with ''/'' parts))))"

subsection \<open>The plugin constructor\<close>

text \<open>
  Modelled from the spec: \<^verbatim>\<open>HtmlWebpackPlugin\<close> is the class exported by the third-party
  package \<^verbatim>\<open>html-webpack-plugin\<close>, not part of the repository.  Following the spec
  (``plugin instances, each configured with options''), constructing it yields an
  instance of that class holding the options object it was given.
\<close>

definition HtmlWebpackPlugin :: "jsval \<Rightarrow> jsval" where
  "HtmlWebpackPlugin options = JInstance ''HtmlWebpackPlugin'' options"

subsection \<open>The exported factory\<close>

text \<open>
  \<^verbatim>\<open>module_exports dirname args\<close> is one call of the exported arrow function in a
  module whose \<^verbatim>\<open>__dirname\<close> is \<^verbatim>\<open>dirname\<close>, with the argument list \<^verbatim>\<open>args\<close>.  The
  function declares no parameter, so the arguments are never read.  The property values
  are evaluated in source order; the first call that throws ends the evaluation.
\<close>

definition module_exports :: "string \<Rightarrow> jsval list \<Rightarrow> error + jsval" where
  "module_exports dirname args =
     (case path_join [JString dirname, JString ''src/index.ts''] of
        Inl e \<Rightarrow> Inl e
      | Inr main \<Rightarrow>
     (case path_join [JString dirname, JString ''src/sw.ts''] of
        Inl e \<Rightarrow> Inl e
      | Inr sw \<Rightarrow>
     (case path_join [JString dirname, JString ''dist''] of
        Inl e \<Rightarrow> Inl e
      | Inr dist \<Rightarrow>
          Inr (JObject
            [(''mode'', JString ''development''),
             (''entry'', JObject
                [(''main'', JString main),
                 (''sw'', JString sw)]),
             (''target'', JArray [JString ''webworker'']),
             (''output'', JObject
                [(''path'', JString dist),
                 (''filename'', JString ''[name].js''),
                 (''publicPath'', JString ''/'')]),
             (''module'', JObject
                [(''rules'', JArray
                   [JObject
                      [(''test'', JRegExp [Atom CHR ''.'', Atom CHR ''t'', Atom CHR ''s'',
                                          Optional CHR ''x'', AssertEnd]),
                       (''exclude'', JRegExp (map Atom ''node_modules'')),
                       (''use'', JArray
                          [JObject [(''loader'', JString ''ts-loader'')]])]])]),
             (''plugins'', JArray
                [HtmlWebpackPlugin (JObject
                   [(''template'', JString ''src/index.html''),
                    (''filename'', JString ''index.html''),
                    (''chunks'', JArray [JString ''main''])])])]))))"


subsection \<open>The factory at the level of object allocation\<close>

text \<open>
  Every object, array and regular-expression literal and every \<^verbatim>\<open>new\<close> expression of
  the function body creates a new object each time it is evaluated.  To state what one
  evaluation does to the objects that exist already, the same function body is given a
  second reading over an explicit store: the store is the list of the objects allocated
  so far, a reference is an index into it, and an allocation appends to it.  A literal
  is allocated once its property values are evaluated (addresses are not observable
  in the language, only identity is).
\<close>

type_synonym ref = nat

datatype hval =
    HString string
  | HRef ref

datatype hobj =
    HObject "(string \<times> hval) list"
  | HArray "hval list"
  | HRegExp regex
  | HInstance string hval

type_synonym heap = "hobj list"

definition alloc :: "hobj \<Rightarrow> heap \<Rightarrow> hval \<times> heap" where
  "alloc ob h = (HRef (length h), h @ [ob])"

text \<open>
  Modelled from the spec: the constructor of the third-party class, as above, now
  allocating the instance that holds the reference to its options.
\<close>

definition HtmlWebpackPlugin_new :: "hval \<Rightarrow> heap \<Rightarrow> hval \<times> heap" where
  "HtmlWebpackPlugin_new options h = alloc (HInstance ''HtmlWebpackPlugin'' options) h"

definition module_exports_alloc ::
  "string \<Rightarrow> jsval list \<Rightarrow> heap \<Rightarrow> (error + hval) \<times> heap" where
  "module_exports_alloc dirname args h0 =
     (case path_join [JString dirname, JString ''src/index.ts''] of
        Inl e \<Rightarrow> (Inl e, h0)
      | Inr main \<Rightarrow>
     (case path_join [JString dirname, JString ''src/sw.ts''] of
        Inl e \<Rightarrow> (Inl e, h0)
      | Inr sw \<Rightarrow>
     (let (entry, h1) = alloc (HObject [(''main'', HString main), (''sw'', HString sw)]) h0;
          (target, h2) = alloc (HArray [HString ''webworker'']) h1
      in
     (case path_join [JString dirname, JString ''dist''] of
        Inl e \<Rightarrow> (Inl e, h2)
      | Inr dist \<Rightarrow>
     (let (output, h3) = alloc (HObject [(''path'', HString dist),
                                         (''filename'', HString ''[name].js''),
                                         (''publicPath'', HString ''/'')]) h2;
          (test, h4) = alloc (HRegExp [Atom CHR ''.'', Atom CHR ''t'', Atom CHR ''s'',
                                       Optional CHR ''x'', AssertEnd]) h3;
          (exclude, h5) = alloc (HRegExp (map Atom ''node_modules'')) h4;
          (loader, h6) = alloc (HObject [(''loader'', HString ''ts-loader'')]) h5;
          (use, h7) = alloc (HArray [loader]) h6;
          (rule, h8) = alloc (HObject [(''test'', test), (''exclude'', exclude),
                                       (''use'', use)]) h7;
          (rules, h9) = alloc (HArray [rule]) h8;
          (module, h10) = alloc (HObject [(''rules'', rules)]) h9;
          (chunks, h11) = alloc (HArray [HString ''main'']) h10;
          (options, h12) = alloc (HObject [(''template'', HString ''src/index.html''),
                                           (''filename'', HString ''index.html''),
                                           (''chunks'', chunks)]) h11;
          (plugin, h13) = HtmlWebpackPlugin_new options h12;
          (plugins, h14) = alloc (HArray [plugin]) h13;
          (config, h15) = alloc (HObject [(''mode'', HString ''development''),
                                          (''entry'', entry),
                                          (''target'', target),
                                          (''output'', output),
                                          (''module'', module),
                                          (''plugins'', plugins)]) h14
      in (Inr config, h15))))))"

text \<open>
  \<^verbatim>\<open>reify n h v\<close> reads the value \<^verbatim>\<open>v\<close> back from the store \<^verbatim>\<open>h\<close> as a tree, following
  references at most \<^verbatim>\<open>n\<close> deep; it is \<^verbatim>\<open>None\<close> on a dangling reference or when the
  depth does not suffice.  Two values are structurally equal when they read back as the
  same tree.
\<close>

fun reify :: "nat \<Rightarrow> heap \<Rightarrow> hval \<Rightarrow> jsval option" where
  "reify n h (HString s) = Some (JString s)"
| "reify 0 h (HRef r) = None"
| "reify (Suc n) h (HRef r) =
     (if r < length h then
        (case h ! r of
           HObject kvs \<Rightarrow>
             map_option JObject
               (those (map (\<lambda>kv. map_option (Pair (fst kv)) (reify n h (snd kv))) kvs))
         | HArray vs \<Rightarrow> map_option JArray (those (map (reify n h) vs))
         | HRegExp rx \<Rightarrow> Some (JRegExp rx)
         | HInstance c opts \<Rightarrow> map_option (JInstance c) (reify n h opts))
      else None)"

subsection \<open>Reading the configuration\<close>

text \<open>
  \<^verbatim>\<open>get_prop k v\<close> reads the own property \<^verbatim>\<open>k\<close> of an object (no literal of the file
  repeats a key); \<^verbatim>\<open>has_prop k P v\<close> says that the property is present and its value
  satisfies \<^verbatim>\<open>P\<close>.
\<close>

definition get_prop :: "string \<Rightarrow> jsval \<Rightarrow> jsval option" where
  "get_prop k v = (case v of JObject kvs \<Rightarrow> map_of kvs k | _ \<Rightarrow> None)"

definition has_prop :: "string \<Rightarrow> (jsval \<Rightarrow> bool) \<Rightarrow> jsval \<Rightarrow> bool" where
  "has_prop k P v = (case get_prop k v of Some x \<Rightarrow> P x | None \<Rightarrow> False)"

fun is_string :: "jsval \<Rightarrow> bool" where
  "is_string (JString s) = True"
| "is_string v = False"

fun is_object :: "jsval \<Rightarrow> bool" where
  "is_object (JObject kvs) = True"
| "is_object v = False"

fun is_instance :: "jsval \<Rightarrow> bool" where
  "is_instance (JInstance c opts) = True"
| "is_instance v = False"

fun is_list_of :: "(jsval \<Rightarrow> bool) \<Rightarrow> jsval \<Rightarrow> bool" where
  "is_list_of P (JArray vs) = list_all P vs"
| "is_list_of P v = False"

fun is_mapping_to :: "(jsval \<Rightarrow> bool) \<Rightarrow> jsval \<Rightarrow> bool" where
  "is_mapping_to P (JObject kvs) = list_all (\<lambda>kv. P (snd kv)) kvs"
| "is_mapping_to P v = False"

text \<open>
  The schema of the first testable property of the specification, in its words: the
  required keys are present and their values have the expected types.
\<close>

definition well_formed_configuration :: "jsval \<Rightarrow> bool" where
  "well_formed_configuration cfg \<longleftrightarrow>
     has_prop ''mode'' is_string cfg \<and>
     has_prop ''entry'' (is_mapping_to is_string) cfg \<and>
     has_prop ''target'' (is_list_of is_string) cfg \<and>
     has_prop ''output'' (\<lambda>out. has_prop ''path'' is_string out \<and>
                           has_prop ''filename'' is_string out \<and>
                           has_prop ''publicPath'' is_string out) cfg \<and>
     has_prop ''module'' (has_prop ''rules'' (is_list_of is_object)) cfg \<and>
     has_prop ''plugins'' (is_list_of is_instance) cfg"

definition entry_chunks :: "jsval \<Rightarrow> (string \<times> jsval) list" where
  "entry_chunks cfg = (case get_prop ''entry'' cfg of Some (JObject kvs) \<Rightarrow> kvs | _ \<Rightarrow> [])"

definition entry_keys :: "jsval \<Rightarrow> string list" where
  "entry_keys cfg = map fst (entry_chunks cfg)"

fun html_plugin_options :: "jsval \<Rightarrow> jsval list" where
  "html_plugin_options (JInstance c opts) = (if c = ''HtmlWebpackPlugin'' then [opts] else [])"
| "html_plugin_options v = []"

definition html_plugins :: "jsval \<Rightarrow> jsval list" where
  "html_plugins cfg =
     (case get_prop ''plugins'' cfg of
        Some (JArray ps) \<Rightarrow> concat (map html_plugin_options ps)
      | _ \<Rightarrow> [])"

fun string_items :: "jsval \<Rightarrow> string list" where
  "string_items (JArray vs) = concat (map (\<lambda>v. case v of JString s \<Rightarrow> [s] | _ \<Rightarrow> []) vs)"
| "string_items v = []"

definition plugin_chunks :: "jsval \<Rightarrow> string list" where
  "plugin_chunks cfg =
     concat (map (\<lambda>opts. case get_prop ''chunks'' opts of
                            Some a \<Rightarrow> string_items a
                          | None \<Rightarrow> [])
                 (html_plugins cfg))"

definition html_filenames :: "jsval \<Rightarrow> string list" where
  "html_filenames cfg =
     concat (map (\<lambda>opts. case get_prop ''filename'' opts of
                            Some (JString f) \<Rightarrow> [f]
                          | _ \<Rightarrow> [])
                 (html_plugins cfg))"

definition module_rules :: "jsval \<Rightarrow> jsval option" where
  "module_rules cfg = (case get_prop ''module'' cfg of Some m \<Rightarrow> get_prop ''rules'' m | None \<Rightarrow> None)"

definition output_option :: "string \<Rightarrow> jsval \<Rightarrow> jsval option" where
  "output_option k cfg = (case get_prop ''output'' cfg of Some out \<Rightarrow> get_prop k out | None \<Rightarrow> None)"

text \<open>\<^verbatim>\<open>path.isAbsolute\<close> on POSIX: a non-empty path that starts with the separator.\<close>

definition isAbsolute :: "string \<Rightarrow> bool" where
  "isAbsolute p \<longleftrightarrow> p \<noteq> [] \<and> hd p = CHR ''/''"

text \<open>
  The runtime sets \<^verbatim>\<open>__dirname\<close> to the resolved directory of the module file: an
  absolute path that normalisation leaves as it is.
\<close>

definition resolved_directory :: "string \<Rightarrow> bool" where
  "resolved_directory d \<longleftrightarrow> isAbsolute d \<and> path_normalize d = d"

text \<open>
  Modelled from the spec: the bundler that reads \<^verbatim>\<open>output.filename\<close> is external.
  Following the spec (``per-chunk filename pattern''), the file emitted for a chunk is
  the pattern with every \<^verbatim>\<open>[name]\<close> replaced by the chunk's name.
\<close>

fun substitute_name :: "string \<Rightarrow> string \<Rightarrow> string" where
  "substitute_name [] name = []"
| "substitute_name (c # cs) name =
     (if prefix ''[name]'' (c # cs) then name @ substitute_name (drop 5 cs) name
      else c # substitute_name cs name)"

definition emitted_filenames :: "jsval \<Rightarrow> string list" where
  "emitted_filenames cfg =
     (case output_option ''filename'' cfg of
        Some (JString pat) \<Rightarrow> map (substitute_name pat) (entry_keys cfg)
      | _ \<Rightarrow> [])"


section \<open>Auxiliary facts\<close>

subsection \<open>Path normalisation\<close>

lemma split_on_not_Nil: "split_on sep s \<noteq> []"
  by (induction s) (auto split: list.splits)

lemma split_on_append:
  "split_on sep (a @ sep # b) = split_on sep a @ split_on sep b"
proof (induction a)
  case Nil
  show ?case by simp
next
  case (Cons c a)
  obtain s ss where "split_on sep a = s # ss"
    using split_on_not_Nil [of sep a] by (cases "split_on sep a") auto
  with Cons show ?case by simp
qed

lemma join_with_Cons:
  "ss \<noteq> [] \<Longrightarrow> join_with sep (s # ss) = s @ sep @ join_with sep ss"
  by (cases ss) auto

lemma join_with_split_on: "join_with [sep] (split_on sep s) = s"
proof (induction s)
  case Nil
  show ?case by simp
next
  case (Cons c cs)
  obtain s ss where sp: "split_on sep cs = s # ss"
    using split_on_not_Nil [of sep cs] by (cases "split_on sep cs") auto
  show ?case
  proof (cases "c = sep")
    case True
    with Cons sp show ?thesis by simp
  next
    case False
    with Cons sp show ?thesis by (cases ss) auto
  qed
qed

lemma join_with_append:
  "st \<noteq> [] \<Longrightarrow> ps \<noteq> [] \<Longrightarrow>
     join_with sep (st @ ps) = join_with sep st @ sep @ join_with sep ps"
proof (induction st)
  case Nil
  then show ?case by simp
next
  case (Cons s st)
  show ?case
  proof (cases "st = []")
    case True
    with Cons.prems show ?thesis by (simp add: join_with_Cons)
  next
    case False
    with Cons show ?thesis by (simp add: join_with_Cons)
  qed
qed

lemma join_with_eq_Nil:
  "[] \<notin> set st \<Longrightarrow> join_with sep st = [] \<Longrightarrow> st = []"
  by (induction sep st rule: join_with.induct) auto

lemma normalize_step_no_empty:
  "[] \<notin> set res \<Longrightarrow> [] \<notin> set (normalize_step al res seg)"
  by (auto simp: normalize_step_def dest: in_set_butlastD)

lemma foldl_normalize_step_no_empty:
  "[] \<notin> set res \<Longrightarrow> [] \<notin> set (foldl (normalize_step al) res segs)"
  by (induction segs arbitrary: res) (simp_all add: normalize_step_no_empty)

lemma foldl_normalize_step_plain:
  "\<forall>seg\<in>set segs. seg \<noteq> [] \<and> seg \<noteq> ''.'' \<and> seg \<noteq> ''..'' \<Longrightarrow>
     foldl (normalize_step al) res segs = res @ segs"
  by (induction segs arbitrary: res) (simp_all add: normalize_step_def)

lemma path_normalize_under_directory:
  assumes d: "resolved_directory d"
    and s: "s \<noteq> []" "last s \<noteq> CHR ''/''"
    and plain: "\<forall>seg\<in>set (split_on CHR ''/'' s). seg \<noteq> [] \<and> seg \<noteq> ''.'' \<and> seg \<noteq> ''..''"
  shows "path_normalize (d @ ''/'' @ s) = d @ (if last d = CHR ''/'' then [] else ''/'') @ s"
proof -
  define st where "st = foldl (normalize_step False) [] (split_on CHR ''/'' d)"
  from d have dne: "d \<noteq> []" and dabs: "hd d = CHR ''/''" and fixd: "path_normalize d = d"
    by (simp_all add: resolved_directory_def isAbsolute_def)
  have ne: "[] \<notin> set st"
    unfolding st_def by (rule foldl_normalize_step_no_empty) simp
  have nd: "normalizeString d False = join_with ''/'' st"
    by (simp add: normalizeString_def st_def)
  have "normalizeString (d @ ''/'' @ s) False = join_with ''/'' (st @ split_on CHR ''/'' s)"
    using plain
    by (simp add: normalizeString_def split_on_append st_def foldl_normalize_step_plain)
  moreover have js: "join_with ''/'' (split_on CHR ''/'' s) = s"
    by (rule join_with_split_on)
  ultimately have ns: "normalizeString (d @ ''/'' @ s) False =
      (if st = [] then s else join_with ''/'' st @ ''/'' @ s)"
    by (simp add: join_with_append split_on_not_Nil)
  have whole: "path_normalize (d @ ''/'' @ s) =
      (if st = [] then ''/'' @ s else ''/'' @ join_with ''/'' st @ ''/'' @ s)"
    using dne dabs s ns by (simp add: path_normalize_def Let_def)
  show ?thesis
  proof (cases "st = []")
    case True
    with nd fixd dne dabs have "d = ''/''"
      by (simp add: path_normalize_def Let_def split: if_splits)
    with True whole show ?thesis by simp
  next
    case False
    with ne have p: "join_with ''/'' st \<noteq> []"
      using join_with_eq_Nil by blast
    from fixd dne dabs nd p have
      "d = ''/'' @ join_with ''/'' st @ (if last d = CHR ''/'' then ''/'' else [])"
      by (simp add: path_normalize_def Let_def split: if_splits)
    with False whole show ?thesis by (simp split: if_splits)
  qed
qed

lemma path_join_dirname:
  "s \<noteq> [] \<Longrightarrow>
     path_join [JString d, JString s] =
       Inr (path_normalize (if d = [] then s else d @ ''/'' @ s))"
  by (simp add: path_join_def)

lemma path_normalize_not_Nil: "path_normalize p \<noteq> []"
  by (simp add: path_normalize_def Let_def)

subsection \<open>Regular expressions\<close>

lemma regex_test_iff: "regex_test r s \<longleftrightarrow> (\<exists>a b. s = a @ b \<and> match_here r b)"
proof (induction s)
  case Nil
  then show ?case by simp
next
  case (Cons c cs)
  show ?case
  proof
    assume "regex_test r (c # cs)"
    then consider "match_here r (c # cs)" | "regex_test r cs" by auto
    then show "\<exists>a b. c # cs = a @ b \<and> match_here r b"
    proof cases
      case 1
      then have "c # cs = [] @ (c # cs) \<and> match_here r (c # cs)" by simp
      then show ?thesis by blast
    next
      case 2
      with Cons.IH obtain a b where "cs = a @ b" "match_here r b" by blast
      then have "c # cs = (c # a) @ b \<and> match_here r b" by simp
      then show ?thesis by blast
    qed
  next
    assume "\<exists>a b. c # cs = a @ b \<and> match_here r b"
    then obtain a b where ab: "c # cs = a @ b" "match_here r b" by blast
    show "regex_test r (c # cs)"
    proof (cases a)
      case Nil
      with ab have "match_here r (c # cs)" by simp
      then show ?thesis by simp
    next
      case (Cons x a')
      with ab have "cs = a' @ b" by simp
      with ab(2) Cons.IH have "regex_test r cs" by blast
      then show ?thesis by simp
    qed
  qed
qed

lemma match_here_atoms: "match_here (map Atom w) b \<longleftrightarrow> prefix w b"
  by (induction w arbitrary: b) (auto split: list.splits simp: prefix_Cons)

lemma match_here_ts:
  "match_here [Atom CHR ''.'', Atom CHR ''t'', Atom CHR ''s'', Optional CHR ''x'', AssertEnd] b
     \<longleftrightarrow> b = ''.ts'' \<or> b = ''.tsx''"
  by (auto split: list.splits)

lemma regex_test_ts:
  "regex_test [Atom CHR ''.'', Atom CHR ''t'', Atom CHR ''s'', Optional CHR ''x'', AssertEnd] s
     \<longleftrightarrow> suffix ''.ts'' s \<or> suffix ''.tsx'' s"
  unfolding regex_test_iff match_here_ts suffix_def by blast

lemma regex_test_atoms: "regex_test (map Atom w) s \<longleftrightarrow> sublist w s"
  unfolding regex_test_iff match_here_atoms sublist_def prefix_def by blast

subsection \<open>Evaluation of the factory\<close>

lemmas read_defs =
  get_prop_def has_prop_def entry_chunks_def entry_keys_def html_plugins_def
  plugin_chunks_def html_filenames_def module_rules_def output_option_def
  emitted_filenames_def HtmlWebpackPlugin_def

lemma module_exports_alloc_result:
  "\<exists>r h'. module_exports_alloc dirname args h = (Inr r, h') \<and> prefix h h' \<and>
       (\<exists>cfg. reify 6 h' r = Some cfg \<and> module_exports dirname args = Inr cfg)"
  by (simp add: module_exports_alloc_def module_exports_def path_join_dirname alloc_def
        HtmlWebpackPlugin_new_def HtmlWebpackPlugin_def Let_def nth_append eval_nat_numeral)

section \<open>Properties of the configuration\<close>

text \<open>
  Throughout, \<^verbatim>\<open>dirname\<close> is the module's \<^verbatim>\<open>__dirname\<close> and \<^verbatim>\<open>args\<close> the arguments the
  caller passes to the factory; both are arbitrary unless a hypothesis says otherwise.
\<close>

text \<open>
  Claim C1.  The factory returns a configuration in which the required keys are present
  with values of the expected types: \<^verbatim>\<open>mode\<close> is a string, \<^verbatim>\<open>entry\<close> an object whose
  values are strings, \<^verbatim>\<open>target\<close> an array of strings, \<^verbatim>\<open>output\<close> an object with string
  fields \<^verbatim>\<open>path\<close>, \<^verbatim>\<open>filename\<close> and \<^verbatim>\<open>publicPath\<close>, \<^verbatim>\<open>module.rules\<close> an array of
  objects and \<^verbatim>\<open>plugins\<close> an array of instances.
\<close>

theorem configuration_well_formed:
  "\<exists>cfg. module_exports dirname args = Inr cfg \<and> well_formed_configuration cfg"
  by (simp add: module_exports_def path_join_dirname well_formed_configuration_def read_defs)

text \<open>
  Claim C2.  Every chunk name in the \<^verbatim>\<open>chunks\<close> list of the HTML-generation plugin is a
  key of \<^verbatim>\<open>entry\<close>: the list is \<^verbatim>\<open>['main']\<close> and the keys are \<^verbatim>\<open>main\<close> and \<^verbatim>\<open>sw\<close>.
\<close>

theorem html_chunks_are_entry_keys:
  "\<exists>cfg. module_exports dirname args = Inr cfg \<and>
         plugin_chunks cfg = [''main''] \<and>
         entry_keys cfg = [''main'', ''sw''] \<and>
         set (plugin_chunks cfg) \<subseteq> set (entry_keys cfg)"
  by (simp add: module_exports_def path_join_dirname read_defs cong: conj_cong)

text \<open>
  Claim C3.  Evaluation is deterministic and free of side effects.  Take any two
  evaluations in a module with the same directory, started in any two stores and with
  any arguments.  Both return a reference; each final store extends the initial one, so
  that no object that existed before is changed; and the two returned objects read back
  from their stores as the same tree, which is the configuration of the value-level
  reading.
\<close>

theorem evaluation_deterministic_no_mutation:
  "\<exists>r1 h1' r2 h2' cfg.
     module_exports_alloc dirname args1 h1 = (Inr r1, h1') \<and>
     module_exports_alloc dirname args2 h2 = (Inr r2, h2') \<and>
     prefix h1 h1' \<and> prefix h2 h2' \<and>
     reify 6 h1' r1 = Some cfg \<and> reify 6 h2' r2 = Some cfg \<and>
     module_exports dirname args1 = Inr cfg \<and> module_exports dirname args2 = Inr cfg"
proof -
  obtain r1 h1' cfg1 where 1: "module_exports_alloc dirname args1 h1 = (Inr r1, h1')"
      "prefix h1 h1'" "reify 6 h1' r1 = Some cfg1" "module_exports dirname args1 = Inr cfg1"
    using module_exports_alloc_result [of dirname args1 h1] by blast
  obtain r2 h2' cfg2 where 2: "module_exports_alloc dirname args2 h2 = (Inr r2, h2')"
      "prefix h2 h2'" "reify 6 h2' r2 = Some cfg2" "module_exports dirname args2 = Inr cfg2"
    using module_exports_alloc_result [of dirname args2 h2] by blast
  have "module_exports dirname args1 = module_exports dirname args2"
    by (simp add: module_exports_def)
  with 1(4) 2(4) have "cfg1 = cfg2" by simp
  with 1 2 show ?thesis by blast
qed

text \<open>
  Claim C4.  The factory is total and never signals an error: whatever the module
  directory and whatever arguments it is called with, it returns a value and not an
  error; that value is a configuration object (an object with the required keys, their
  values of the expected types), and it does not depend on the arguments.
\<close>

theorem factory_total_ignores_input:
  "\<exists>cfg. is_object cfg \<and> well_formed_configuration cfg \<and>
         (\<forall>args. module_exports dirname args = Inr cfg)"
proof -
  obtain cfg where cfg: "module_exports dirname [] = Inr cfg"
    and obj: "is_object cfg" and wf: "well_formed_configuration cfg"
    by (simp add: module_exports_def path_join_dirname well_formed_configuration_def read_defs)
  have "module_exports dirname args = module_exports dirname []" for args
    by (simp add: module_exports_def)
  with cfg have "\<forall>args. module_exports dirname args = Inr cfg" by simp
  with obj wf show ?thesis by blast
qed

text \<open>
  Claim C5.  The \<^verbatim>\<open>entry\<close> field has exactly two chunks: \<^verbatim>\<open>main\<close>, mapped to the join of
  the module directory with \<^verbatim>\<open>src/index.ts\<close>, and \<^verbatim>\<open>sw\<close>, mapped to the join of the module
  directory with \<^verbatim>\<open>src/sw.ts\<close>.
\<close>

theorem entry_two_chunks:
  "\<exists>cfg main sw.
     module_exports dirname args = Inr cfg \<and>
     path_join [JString dirname, JString ''src/index.ts''] = Inr main \<and>
     path_join [JString dirname, JString ''src/sw.ts''] = Inr sw \<and>
     get_prop ''entry'' cfg = Some (JObject [(''main'', JString main), (''sw'', JString sw)])"
  by (simp add: module_exports_def path_join_dirname read_defs)

text \<open>
  Claim C6.  \<^verbatim>\<open>module.rules\<close> holds exactly one rule, made of a test pattern, an
  exclusion pattern and a loader chain.  The test pattern accepts exactly the file names
  that end in \<^verbatim>\<open>.ts\<close> or \<^verbatim>\<open>.tsx\<close>, the exclusion pattern exactly those that contain
  \<^verbatim>\<open>node_modules\<close>, and the loader chain is the single loader \<^verbatim>\<open>ts-loader\<close>.
\<close>

theorem single_typescript_rule:
  "\<exists>cfg test exclude.
     module_exports dirname args = Inr cfg \<and>
     module_rules cfg = Some (JArray
       [JObject [(''test'', JRegExp test),
                 (''exclude'', JRegExp exclude),
                 (''use'', JArray [JObject [(''loader'', JString ''ts-loader'')]])]]) \<and>
     (\<forall>file. regex_test test file \<longleftrightarrow> suffix ''.ts'' file \<or> suffix ''.tsx'' file) \<and>
     (\<forall>file. regex_test exclude file \<longleftrightarrow> sublist ''node_modules'' file)"
proof -
  let ?test = "[Atom CHR ''.'', Atom CHR ''t'', Atom CHR ''s'', Optional CHR ''x'', AssertEnd]"
  let ?exclude = "map Atom ''node_modules''"
  obtain cfg where cfg: "module_exports dirname args = Inr cfg"
    and rules: "module_rules cfg = Some (JArray
       [JObject [(''test'', JRegExp ?test),
                 (''exclude'', JRegExp ?exclude),
                 (''use'', JArray [JObject [(''loader'', JString ''ts-loader'')]])]])"
    by (simp add: module_exports_def path_join_dirname read_defs)
  have "\<forall>file. regex_test ?test file \<longleftrightarrow> suffix ''.ts'' file \<or> suffix ''.tsx'' file"
    by (simp only: regex_test_ts) simp
  moreover have "\<forall>file. regex_test ?exclude file \<longleftrightarrow> sublist ''node_modules'' file"
    by (simp only: regex_test_atoms) simp
  ultimately show ?thesis using cfg rules by blast
qed

text \<open>
  Claim C7.  The output directory \<^verbatim>\<open>output.path\<close> and the filename pattern
  \<^verbatim>\<open>output.filename\<close> are non-empty strings.
\<close>

theorem output_path_filename_nonempty:
  "\<exists>cfg p f.
     module_exports dirname args = Inr cfg \<and>
     output_option ''path'' cfg = Some (JString p) \<and> p \<noteq> [] \<and>
     output_option ''filename'' cfg = Some (JString f) \<and> f \<noteq> []"
  by (simp add: module_exports_def path_join_dirname read_defs path_normalize_not_Nil)

text \<open>
  Claim C9.  The chunk names of \<^verbatim>\<open>entry\<close> are pairwise distinct; under the pattern
  \<^verbatim>\<open>[name].js\<close> the chunks are emitted to the distinct files \<^verbatim>\<open>main.js\<close> and \<^verbatim>\<open>sw.js\<close>,
  and neither is the HTML-generation plugin's output file \<^verbatim>\<open>index.html\<close>.
\<close>

theorem chunks_emitted_to_distinct_files:
  "\<exists>cfg. module_exports dirname args = Inr cfg \<and>
         distinct (entry_keys cfg) \<and>
         emitted_filenames cfg = [''main.js'', ''sw.js''] \<and>
         distinct (emitted_filenames cfg) \<and>
         html_filenames cfg = [''index.html''] \<and>
         set (html_filenames cfg) \<inter> set (emitted_filenames cfg) = {}"
  by (simp add: module_exports_def path_join_dirname read_defs cong: conj_cong)

text \<open>
  Claim C10.  In a module whose directory is the resolved one the runtime supplies, the
  two entry paths and \<^verbatim>\<open>output.path\<close> are absolute and have the module directory as a
  prefix, whereas the plugin's template path \<^verbatim>\<open>src/index.html\<close> is relative and does
  not have it as a prefix.
\<close>

theorem paths_under_directory:
  assumes "resolved_directory dirname"
  shows "\<exists>cfg main sw dist.
     module_exports dirname args = Inr cfg \<and>
     entry_chunks cfg = [(''main'', JString main), (''sw'', JString sw)] \<and>
     output_option ''path'' cfg = Some (JString dist) \<and>
     (\<forall>p\<in>{main, sw, dist}. isAbsolute p \<and> prefix dirname p) \<and>
     map (get_prop ''template'') (html_plugins cfg) = [Some (JString ''src/index.html'')] \<and>
     \<not> isAbsolute ''src/index.html'' \<and>
     \<not> prefix dirname ''src/index.html''"
proof -
  from assms have ne: "dirname \<noteq> []" and ab: "hd dirname = CHR ''/''"
    by (simp_all add: resolved_directory_def isAbsolute_def)
  have under: "isAbsolute (path_normalize (dirname @ ''/'' @ s)) \<and>
      prefix dirname (path_normalize (dirname @ ''/'' @ s))"
    if "s \<noteq> []" "last s \<noteq> CHR ''/''"
      "\<forall>seg\<in>set (split_on CHR ''/'' s). seg \<noteq> [] \<and> seg \<noteq> ''.'' \<and> seg \<noteq> ''..''" for s
  proof -
    have "path_normalize (dirname @ ''/'' @ s) =
        dirname @ (if last dirname = CHR ''/'' then [] else ''/'') @ s"
      using assms that by (rule path_normalize_under_directory)
    with ne ab show ?thesis by (simp add: isAbsolute_def)
  qed
  have 1: "isAbsolute (path_normalize (dirname @ ''/'' @ ''src/index.ts'')) \<and>
      prefix dirname (path_normalize (dirname @ ''/'' @ ''src/index.ts''))"
    by (rule under) simp_all
  have 2: "isAbsolute (path_normalize (dirname @ ''/'' @ ''src/sw.ts'')) \<and>
      prefix dirname (path_normalize (dirname @ ''/'' @ ''src/sw.ts''))"
    by (rule under) simp_all
  have 3: "isAbsolute (path_normalize (dirname @ ''/'' @ ''dist'')) \<and>
      prefix dirname (path_normalize (dirname @ ''/'' @ ''dist''))"
    by (rule under) simp_all
  have rel: "\<not> isAbsolute ''src/index.html'' \<and> \<not> prefix dirname ''src/index.html''"
    using ne ab by (cases dirname) (simp_all add: isAbsolute_def)
  show ?thesis
    using ne 1 2 3 rel
    by (simp add: module_exports_def path_join_dirname read_defs)
qed

theorem paths_under_directory_witness:
  "resolved_directory ''/home/app'' \<and>
   (\<exists>cfg. module_exports ''/home/app'' [] = Inr cfg \<and>
      entry_chunks cfg = [(''main'', JString ''/home/app/src/index.ts''),
                          (''sw'', JString ''/home/app/src/sw.ts'')] \<and>
      output_option ''path'' cfg = Some (JString ''/home/app/dist''))"
proof -
  have h: "resolved_directory ''/home/app''"
    by (simp add: resolved_directory_def isAbsolute_def path_normalize_def normalizeString_def
          normalize_step_def)
  from paths_under_directory [OF h, of "[]"] h show ?thesis
    by (simp add: module_exports_def path_join_def path_normalize_def normalizeString_def
          normalize_step_def read_defs)
qed

end
